theory Spec2Isabelle
  imports Main
begin

section \<open>Data model\<close>

text \<open>
  The repository holds two revisions of the generator. The model follows the later one
  (the file that has \<^verbatim>\<open>createFunctionDefinition\<close>, \<^verbatim>\<open>findNamespaceFortype\<close> and the
  event and property emitters); \<^verbatim>\<open>mergeNamespaceTypes\<close> and the \<^verbatim>\<open>items\<close> check of
  \<^verbatim>\<open>getType\<close> read the same in both.

  The generator reads JSON schema documents and never checks their shape: the records of
  the schema are the TypeScript interfaces \<^verbatim>\<open>SchemaPartType\<close>,
  \<^verbatim>\<open>SchemaPartFunction\<close>, \<^verbatim>\<open>SchemaPartFunctionParameter\<close> and the
  structural parameter type of \<^verbatim>\<open>getType\<close>, which the code passes to one another
  freely. They are modelled by one type \<open>node\<close> holding the union of their fields. An
  absent field is \<open>None\<close>. The two flags \<^verbatim>\<open>optional\<close> and \<^verbatim>\<open>unsupported\<close> are
  only ever tested for truthiness, so absent and \<^verbatim>\<open>false\<close> are both \<open>False\<close>.
  Strings are lists of characters; the model is exact for ASCII text.
\<close>

datatype async_flag = AsyncBool bool | AsyncName string

text \<open>
  \<^verbatim>\<open>enum\<close> is typed \<^verbatim>\<open>any\<close>: an array (of values, kept in the form the template
  literal \<^verbatim>\<open>`'${item}'`\<close> prints them) or some other truthy value.
\<close>

datatype enum_value = EnumArray "string list" | EnumOther

record attrs =
  f_id :: "string option"
  f_name :: "string option"
  f_type :: "string option"
  f_ref :: "string option"
  f_description :: "string option"
  f_optional :: bool
  f_async :: "async_flag option"
  f_enum :: "enum_value option"
  f_value :: "string option"
  f_unsupported :: bool

datatype node = Node
  (attrs: attrs)
  (f_items: "node option")
  (f_choices: "node list option")
  (f_properties: "(string \<times> node) list option")
  (f_functions: "node list option")
  (f_parameters: "node list option")
  (f_returns: "node option")

definition noAttrs :: attrs where
  "noAttrs = \<lparr>f_id = None, f_name = None, f_type = None, f_ref = None,
     f_description = None, f_optional = False, f_async = None, f_enum = None,
     f_value = None, f_unsupported = False\<rparr>"

text \<open>A node that has scalar fields only.\<close>

definition leaf :: "attrs \<Rightarrow> node" where
  "leaf a = Node a None None None None None None"

text \<open>
  \<^verbatim>\<open>SchemaPart\<close>: one namespace of one file, and later one entry of the namespace
  table. \<^verbatim>\<open>mergeSchema\<close> reads \<^verbatim>\<open>functions\<close>, \<^verbatim>\<open>types\<close> and \<^verbatim>\<open>events\<close>
  with the default \<^verbatim>\<open>[]\<close> and stores the defaulted values, so a missing list is the
  empty list here. \<^verbatim>\<open>mergeNamespaceFunctions\<close> compares function records with
  \<^verbatim>\<open>indexOf\<close>, that is by object identity; each function record is therefore paired
  with the address of the JavaScript object that holds it.
\<close>

record schema_part =
  sp_namespace :: string
  sp_description :: "string option"
  sp_functions :: "(nat \<times> node) list"
  sp_events :: "node list"
  sp_types :: "node list"
  sp_properties :: "(string \<times> node) list option"

text \<open>
  A JavaScript \<^verbatim>\<open>Map\<close> iterates in insertion order and \<^verbatim>\<open>set\<close> on a present key
  keeps the key's position: an association list with distinct keys.
\<close>

type_synonym namespace_table = "(string \<times> schema_part) list"

fun mapSet :: "'k \<Rightarrow> 'v \<Rightarrow> ('k \<times> 'v) list \<Rightarrow> ('k \<times> 'v) list" where
  "mapSet k v [] = [(k, v)]"
| "mapSet k v ((k', v') # m) = (if k' = k then (k, v) # m else (k', v') # mapSet k v m)"

definition mapDelete :: "'k \<Rightarrow> ('k \<times> 'v) list \<Rightarrow> ('k \<times> 'v) list" where
  "mapDelete k m = filter (\<lambda>(k', v). k' \<noteq> k) m"

section \<open>Array and string helpers of the JavaScript library\<close>

text \<open>\<^verbatim>\<open>findIndex\<close>; the result \<^verbatim>\<open>-1\<close> is \<open>None\<close>.\<close>

fun findIndex :: "('a \<Rightarrow> bool) \<Rightarrow> 'a list \<Rightarrow> nat option" where
  "findIndex P [] = None"
| "findIndex P (x # xs) = (if P x then Some 0 else map_option Suc (findIndex P xs))"

text \<open>\<^verbatim>\<open>filter\<close> with a callback that also reads the index.\<close>

definition filterWithIndex :: "('a \<Rightarrow> nat \<Rightarrow> bool) \<Rightarrow> 'a list \<Rightarrow> 'a list" where
  "filterWithIndex f xs = map snd (filter (\<lambda>(i, x). f x i) (enumerate 0 xs))"

text \<open>Truthiness of an optional string: present and not empty.\<close>

definition truthy :: "string option \<Rightarrow> bool" where
  "truthy s = (case s of None \<Rightarrow> False | Some v \<Rightarrow> v \<noteq> [])"

section \<open>Namespace merge\<close>

definition mergeNamespaceFunctions ::
  "(nat \<times> node) list \<Rightarrow> schema_part \<Rightarrow> (nat \<times> node) list" where
  "mergeNamespaceFunctions functions existingSchemaPart =
     (let result = functions @ sp_functions existingSchemaPart
      in filterWithIndex
           (\<lambda>schemaPart index.
              findIndex (\<lambda>item. fst item = fst schemaPart) result = Some index)
           result)"

definition mergeNamespaceEvents :: "node list \<Rightarrow> schema_part \<Rightarrow> node list" where
  "mergeNamespaceEvents events existingSchemaPart =
     events @
     filter
       (\<lambda>schemaPart.
          \<not> (\<exists>item \<in> set events.
                f_async (attrs item) = f_async (attrs schemaPart) \<and>
                f_name (attrs item) = f_name (attrs schemaPart)))
       (sp_events existingSchemaPart)"

text \<open>
  The callback of the filter returns \<^verbatim>\<open>0\<close> for a record whose \<^verbatim>\<open>id\<close> is falsy;
  \<^verbatim>\<open>0\<close> is falsy, so \<^verbatim>\<open>filter\<close> leaves the record out.
\<close>

definition mergeNamespaceTypes :: "node list \<Rightarrow> schema_part \<Rightarrow> node list" where
  "mergeNamespaceTypes types existingSchemaPart =
     (let result = types @ sp_types existingSchemaPart
      in filterWithIndex
           (\<lambda>schemaPart index.
              if \<not> truthy (f_id (attrs schemaPart)) then False
              else findIndex (\<lambda>item. f_id (attrs item) = f_id (attrs schemaPart)) result
                   = Some index)
           result)"

definition mergeNameSpaceProperties ::
  "(string \<times> node) list option \<Rightarrow> schema_part \<Rightarrow> (string \<times> node) list option" where
  "mergeNameSpaceProperties properties existingSchemaPart = properties"

text \<open>
  The body of the \<^verbatim>\<open>forEach\<close> of \<^verbatim>\<open>mergeSchema\<close>. The merged record is built from
  five keys only, so it has no \<^verbatim>\<open>description\<close>.
\<close>

definition mergeSchemaPart :: "namespace_table \<Rightarrow> schema_part \<Rightarrow> namespace_table" where
  "mergeSchemaPart namespaces schemaPart =
     (case map_of namespaces (sp_namespace schemaPart) of
        None \<Rightarrow> mapSet (sp_namespace schemaPart) schemaPart namespaces
      | Some existingSchemaPart \<Rightarrow>
          mapSet (sp_namespace schemaPart)
            \<lparr>sp_namespace = sp_namespace schemaPart,
             sp_description = None,
             sp_functions = mergeNamespaceFunctions (sp_functions schemaPart) existingSchemaPart,
             sp_events = mergeNamespaceEvents (sp_events schemaPart) existingSchemaPart,
             sp_types = mergeNamespaceTypes (sp_types schemaPart) existingSchemaPart,
             sp_properties =
               mergeNameSpaceProperties (sp_properties schemaPart) existingSchemaPart\<rparr>
            namespaces)"

definition mergeSchema :: "schema_part list \<Rightarrow> namespace_table" where
  "mergeSchema schemaParts = foldl mergeSchemaPart [] schemaParts"

section \<open>Outcomes: value, log and exception\<close>

text \<open>
  A call of the generator returns a value or throws, and on the way it prints lines
  through \<^verbatim>\<open>console.log\<close>, \<^verbatim>\<open>logger.warn\<close> and \<^verbatim>\<open>logger.error\<close>. An
  outcome holds the value or the exception together with the lines printed, in order.
  The two exceptions are the explicit \<^verbatim>\<open>throw new Error("Cannot create array typing")\<close>
  of \<^verbatim>\<open>getType\<close> and the \<^verbatim>\<open>TypeError\<close> of calling \<^verbatim>\<open>find\<close> on a missing
  \<^verbatim>\<open>parameters\<close> array. \<open>OutOfFuel\<close> is not a behaviour of the program: the
  recursive functions below carry a bound on the nesting depth of \<^verbatim>\<open>getType\<close> calls,
  and \<open>OutOfFuel\<close> says that the bound given was too small.
\<close>

datatype log_entry = ConsoleLog string | LoggerWarn string | LoggerError string

datatype error = CannotCreateArrayTyping | TypeError

datatype 'a outcome = OutOfFuel | Threw error "log_entry list" | Returned 'a "log_entry list"

fun addLogs :: "log_entry list \<Rightarrow> 'a outcome \<Rightarrow> 'a outcome" where
  "addLogs l OutOfFuel = OutOfFuel"
| "addLogs l (Threw e l') = Threw e (l @ l')"
| "addLogs l (Returned y l') = Returned y (l @ l')"

text \<open>Sequencing: the second computation runs only if the first one returned.\<close>

fun andThen :: "'a outcome \<Rightarrow> ('a \<Rightarrow> 'b outcome) \<Rightarrow> 'b outcome" where
  "andThen OutOfFuel f = OutOfFuel"
| "andThen (Threw e l) f = Threw e l"
| "andThen (Returned x l) f = addLogs l (f x)"

text \<open>
  \<^verbatim>\<open>map\<close> and \<^verbatim>\<open>forEach\<close> with a callback that may print or throw, run from left to
  right; \<open>foldM\<close> is \<^verbatim>\<open>forEach\<close> updating a variable of the enclosing function.
\<close>

fun mapM :: "('a \<Rightarrow> 'b outcome) \<Rightarrow> 'a list \<Rightarrow> 'b list outcome" where
  "mapM f [] = Returned [] []"
| "mapM f (x # xs) =
     andThen (f x) (\<lambda>y. andThen (mapM f xs) (\<lambda>ys. Returned (y # ys) []))"

fun foldM :: "('s \<Rightarrow> 'a \<Rightarrow> 's outcome) \<Rightarrow> 'a list \<Rightarrow> 's \<Rightarrow> 's outcome" where
  "foldM f [] s = Returned s []"
| "foldM f (x # xs) s = andThen (f s x) (\<lambda>s'. foldM f xs s')"

section \<open>Strings\<close>

text \<open>
  \<open>str\<close> is what a template literal prints for a string field that may be absent;
  \<open>orEmpty\<close> is \<^verbatim>\<open>x || ""\<close> (and \<^verbatim>\<open>x ?? ""\<close>, the same on strings).
\<close>

definition str :: "string option \<Rightarrow> string" where
  "str s = (case s of None \<Rightarrow> ''undefined'' | Some v \<Rightarrow> v)"

definition orEmpty :: "string option \<Rightarrow> string" where
  "orEmpty s = (case s of None \<Rightarrow> [] | Some v \<Rightarrow> v)"

definition strAsync :: "async_flag option \<Rightarrow> string" where
  "strAsync a = (case a of None \<Rightarrow> ''undefined'' | Some (AsyncBool True) \<Rightarrow> ''true''
     | Some (AsyncBool False) \<Rightarrow> ''false'' | Some (AsyncName s) \<Rightarrow> s)"

fun join :: "string \<Rightarrow> string list \<Rightarrow> string" where
  "join sep [] = []"
| "join sep [x] = x"
| "join sep (x # y # ys) = x @ sep @ join sep (y # ys)"

text \<open>\<^verbatim>\<open>trim\<close> removes white space at both ends (the ASCII white space here).\<close>

definition isSpace :: "char \<Rightarrow> bool" where
  "isSpace c = (c \<in> set [CHR '' '', CHR 0x09, CHR 0x0A, CHR 0x0B, CHR 0x0C, CHR 0x0D])"

definition trim :: "string \<Rightarrow> string" where
  "trim s = rev (dropWhile isSpace (rev (dropWhile isSpace s)))"

text \<open>
  \<^verbatim>\<open>s.replace(/<\/?tag>/g, rep)\<close>: every \<^verbatim>\<open><tag>\<close> and \<^verbatim>\<open></tag>\<close> is replaced, scanning
  from the left.
\<close>

definition startsWith :: "string \<Rightarrow> string \<Rightarrow> bool" where
  "startsWith s p = (take (length p) s = p)"

fun replaceTag :: "string \<Rightarrow> string \<Rightarrow> string \<Rightarrow> string" where
  "replaceTag tag rep [] = []"
| "replaceTag tag rep (c # cs) =
     (if startsWith (c # cs) (''<'' @ tag @ ''>'')
      then rep @ replaceTag tag rep (drop (length tag + 1) cs)
      else if startsWith (c # cs) (''</'' @ tag @ ''>'')
      then rep @ replaceTag tag rep (drop (length tag + 2) cs)
      else c # replaceTag tag rep cs)"

text \<open>\<^verbatim>\<open>Array(n).join("  ")\<close>: \<open>n - 1\<close> separators between \<open>n\<close> empty slots.\<close>

definition arrayJoin :: "nat \<Rightarrow> string" where
  "arrayJoin n = concat (replicate (n - 1) ''  '')"

definition generateDescription :: "string option \<Rightarrow> nat \<Rightarrow> string" where
  "generateDescription description indention =
     (if truthy description then
        arrayJoin indention @ ''  /**\<newline> '' @ arrayJoin (indention + 1) @ ''* '' @
        replaceTag ''strong'' ''**''
          (replaceTag ''em'' ''*''
            (replaceTag ''b'' ''**''
              (replaceTag ''code'' [CHR 0x60] (str description)))) @
        ''\<newline>  */\<newline>''
      else [])"

section \<open>Reference resolver\<close>

text \<open>
  The table is scanned in iteration order; every namespace whose \<^verbatim>\<open>types\<close> hold a
  record with \<^verbatim>\<open>id === $ref\<close> is pushed and reported on the console. Without a table
  (\<^verbatim>\<open>namespaces?.forEach\<close> on \<^verbatim>\<open>undefined\<close>) nothing is found.
\<close>

definition findNamespaceFortype ::
  "string option \<Rightarrow> namespace_table option \<Rightarrow> string list outcome" where
  "findNamespaceFortype ref namespaces =
     (case namespaces of
        None \<Rightarrow> Returned [] []
      | Some table \<Rightarrow>
          (let found =
                 filter (\<lambda>(namespace, part).
                           find (\<lambda>item. f_id (attrs item) = ref) (sp_types part) \<noteq> None)
                        table
           in Returned (map fst found)
                (map (\<lambda>(namespace, part).
                        ConsoleLog (''FOUND! :: '' @ [CHR 0x27] @ namespace @ ''.'' @ str ref))
                     found)))"

section \<open>Mutation and shallow copies\<close>

text \<open>
  \<^verbatim>\<open>findReturnType\<close> calls \<^verbatim>\<open>shift()\<close> on the \<^verbatim>\<open>parameters\<close> array of the callback
  parameter, which removes the first element from the array of the schema record
  itself. Compiling a record therefore changes it, and the functions below return, next
  to the text, the record as the call leaves it. The object spreads of the source
  (\<^verbatim>\<open>{...property, name: ""}\<close>) copy the scalar fields and share the nested arrays
  and objects: what a call does to a copy is written back to the nested fields of the
  original, whose own scalar fields stay as they were.
\<close>

definition setItems :: "node \<Rightarrow> node option \<Rightarrow> node" where
  "setItems p v = Node (attrs p) v (f_choices p) (f_properties p) (f_functions p)
     (f_parameters p) (f_returns p)"

definition setChoices :: "node \<Rightarrow> node list option \<Rightarrow> node" where
  "setChoices p v = Node (attrs p) (f_items p) v (f_properties p) (f_functions p)
     (f_parameters p) (f_returns p)"

definition setProperties :: "node \<Rightarrow> (string \<times> node) list option \<Rightarrow> node" where
  "setProperties p v = Node (attrs p) (f_items p) (f_choices p) v (f_functions p)
     (f_parameters p) (f_returns p)"

definition setParameters :: "node \<Rightarrow> node list option \<Rightarrow> node" where
  "setParameters p v = Node (attrs p) (f_items p) (f_choices p) (f_properties p)
     (f_functions p) v (f_returns p)"

definition setAttrs :: "node \<Rightarrow> attrs \<Rightarrow> node" where
  "setAttrs p a = Node a (f_items p) (f_choices p) (f_properties p) (f_functions p)
     (f_parameters p) (f_returns p)"

section \<open>Function signatures: options, parameter lists, overloads\<close>

record options =
  omitFunctionKeyword :: bool
  omitFunctionName :: bool
  omitDescription :: bool
  inlineFunction :: bool
  overrideDelimiter :: string
  wrapInBrackets :: bool

definition defaultOptions :: options where
  "defaultOptions = \<lparr>omitFunctionKeyword = False, omitFunctionName = False,
     omitDescription = False, inlineFunction = False, overrideDelimiter = '';'',
     wrapInBrackets = False\<rparr>"

text \<open>
  The arrays \<^verbatim>\<open>parameters\<close>, \<^verbatim>\<open>funcParams\<close> and \<^verbatim>\<open>params\<close> of the source hold
  references to the parameter objects of the function record. A reference is modelled
  by the index of the object in the \<^verbatim>\<open>parameters\<close> array of the record, so that what
  rendering does to a parameter object is seen wherever the object is listed again.
  \<open>indicesWhere\<close> is \<^verbatim>\<open>filter\<close> returning references.
\<close>

definition indicesWhere :: "('a \<Rightarrow> bool) \<Rightarrow> 'a list \<Rightarrow> nat list" where
  "indicesWhere P xs = map fst (filter (\<lambda>(i, x). P x) (enumerate 0 xs))"

text \<open>
  \<^verbatim>\<open>(asyncReturnType?.parameters || []).shift()\<close>: \<open>shift\<close> is the element returned,
  \<open>shifted\<close> the callback parameter afterwards, \<open>updateFirst\<close> puts it in the place
  where \<^verbatim>\<open>find\<close> found it.
\<close>

fun updateFirst :: "('a \<Rightarrow> bool) \<Rightarrow> ('a \<Rightarrow> 'a) \<Rightarrow> 'a list \<Rightarrow> 'a list" where
  "updateFirst P f [] = []"
| "updateFirst P f (x # xs) = (if P x then f x # xs else x # updateFirst P f xs)"

definition shift :: "node list option \<Rightarrow> node option" where
  "shift xs = (case xs of Some (x # rest) \<Rightarrow> Some x | _ \<Rightarrow> None)"

definition shifted :: "node \<Rightarrow> node" where
  "shifted p = (case f_parameters p of Some (x # rest) \<Rightarrow> setParameters p (Some rest) | _ \<Rightarrow> p)"

text \<open>
  \<^verbatim>\<open>parameters.slice(firstOptionalParameterIndex)\<close>; when no parameter is optional the
  index is \<^verbatim>\<open>-1\<close> and \<^verbatim>\<open>slice(-1)\<close> is the last element.
\<close>

definition sliceFrom :: "nat option \<Rightarrow> 'a list \<Rightarrow> 'a list" where
  "sliceFrom start xs =
     (case start of None \<Rightarrow> (if xs = [] then [] else [last xs]) | Some i \<Rightarrow> drop i xs)"

definition allTrailingAreOptional :: "('a \<Rightarrow> bool) \<Rightarrow> 'a list \<Rightarrow> bool" where
  "allTrailingAreOptional optional parameters =
     list_all optional (sliceFrom (findIndex optional parameters) parameters)"

definition requireAllParams :: "node list \<Rightarrow> node list" where
  "requireAllParams params =
     map (\<lambda>parameter.
            setAttrs parameter
              ((attrs parameter)\<lparr>f_optional :=
                  (if f_name (attrs parameter) = Some ''callback''
                   then f_optional (attrs parameter) else False)\<rparr>))
         params"

text \<open>
  The \<^verbatim>\<open>while\<close> loop of \<^verbatim>\<open>createFunctionDefinition\<close>: the values that \<^verbatim>\<open>params\<close>
  takes. The loop emits a signature for each value that still has an optional
  parameter and removes the first optional one; the statement after the loop emits the
  signature of the last value. The \<^verbatim>\<open>optional\<close> flags it reads are never changed.
\<close>

function overloadCascade :: "('a \<Rightarrow> bool) \<Rightarrow> 'a list \<Rightarrow> 'a list list" where
  "overloadCascade optional params =
     (case findIndex optional params of
        None \<Rightarrow> [params]
      | Some firstElementToBeRemoved \<Rightarrow>
          params #
          overloadCascade optional
            (filterWithIndex (\<lambda>_ index. index \<noteq> firstElementToBeRemoved) params))"
  by pat_completeness auto
termination
proof (relation "measure (\<lambda>(optional, params). length params)")
  show "wf (measure (\<lambda>(optional, params). length params))" by simp
next
  fix optional :: "'a \<Rightarrow> bool" and params :: "'a list" and i
  assume a: "findIndex optional params = Some i"
  have "\<And>j. findIndex optional params = Some j \<Longrightarrow> j < length params"
    by (induction params) (auto split: if_splits)
  then have "i < length params" using a by blast
  then have "(i, params ! i) \<in> set (enumerate 0 params)"
    by (simp add: in_set_enumerate_eq)
  then have "length (filter (\<lambda>(k, x). k \<noteq> i) (enumerate 0 params))
      < length (enumerate 0 params)"
    by (rule length_filter_less) simp
  then show "((optional, filterWithIndex (\<lambda>_ index. index \<noteq> i) params), (optional, params))
        \<in> measure (\<lambda>(optional, params). length params)"
    by (simp add: filterWithIndex_def)
qed

text \<open>
  \<^verbatim>\<open>generateFunctionParams\<close> replaces the nested parameters of a parameter by new
  objects of five fields.
\<close>

definition freshParameter :: "node \<Rightarrow> node" where
  "freshParameter item =
     Node (noAttrs\<lparr>f_name := Some (orEmpty (f_name (attrs item))),
                   f_optional := f_optional (attrs item),
                   f_type := Some (orEmpty (f_type (attrs item))),
                   f_description := Some (orEmpty (f_description (attrs item)))\<rparr>)
       None None None None (Some []) None"

text \<open>
  After the parameters listed in \<open>idxs\<close> were rendered from copies, \<open>writeBack\<close>
  stores what the rendering left of their nested fields.
\<close>

definition writeBack :: "nat list \<Rightarrow> node list \<Rightarrow> node list \<Rightarrow> node list" where
  "writeBack idxs params' ps =
     foldl (\<lambda>ps (i, p'). ps[i := setAttrs p' (attrs (ps ! i))]) ps (zip idxs params')"

text \<open>One signature, the template literal that the source repeats three times.\<close>

definition signatureLine :: "options \<Rightarrow> string \<Rightarrow> string \<Rightarrow> string \<Rightarrow> string" where
  "signatureLine opts funcName returnType params =
     ''  '' @ (if wrapInBrackets opts then ''('' else []) @
     (if omitFunctionKeyword opts then [] else ''function '') @
     (if omitFunctionName opts then [] else funcName) @
     ''('' @ params @ '')'' @
     (if inlineFunction opts then '' => '' else '': '') @
     returnType @ (if wrapInBrackets opts then '')'' else []) @ overrideDelimiter opts @
     ''\<newline>''"

section \<open>The type expression compiler and the signature synthesizer\<close>

text \<open>
  \<^verbatim>\<open>getType\<close>, \<^verbatim>\<open>generatePropertyTypings\<close>, \<^verbatim>\<open>generateFunctionParams\<close>,
  \<^verbatim>\<open>createFunctionDefinition\<close> and its inner function \<^verbatim>\<open>findReturnType\<close> call one
  another. The first argument bounds the nesting depth of \<^verbatim>\<open>getType\<close> calls; only
  \<^verbatim>\<open>getType\<close> counts it down.

  \<^verbatim>\<open>getType\<close> starts with \<^verbatim>\<open>if (property === undefined) return "void"\<close>. Only the
  call in \<^verbatim>\<open>findReturnType\<close> can pass \<^verbatim>\<open>undefined\<close> (the result of \<^verbatim>\<open>shift()\<close> on
  an empty array), so that statement is modelled there and \<open>getType\<close> takes a record.
  The \<^verbatim>\<open>debug(...)\<close> strings are empty, \<^verbatim>\<open>DEBUG\<close> being \<^verbatim>\<open>false\<close>.

  \<^verbatim>\<open>findReturnType\<close> returns the return type, the visible parameters (as references)
  and the \<^verbatim>\<open>parameters\<close> array as \<^verbatim>\<open>shift()\<close> left it. The statement after its
  \<^verbatim>\<open>return\<close>, \<^verbatim>\<open>return { returnType: "ERR", parameters: [] }\<close>, is never reached and
  has no counterpart here.
\<close>

function (sequential) getType ::
    "nat \<Rightarrow> node \<Rightarrow> namespace_table option \<Rightarrow> string option \<Rightarrow> (string \<times> node) outcome"
  and generatePropertyTypings :: "nat \<Rightarrow> node \<Rightarrow> bool \<Rightarrow> (string \<times> node) outcome"
  and generateFunctionParams :: "nat \<Rightarrow> node list \<Rightarrow> (string \<times> node list) outcome"
  and findReturnType ::
    "nat \<Rightarrow> node \<Rightarrow> namespace_table option \<Rightarrow> string
       \<Rightarrow> (string \<times> nat list \<times> node list) outcome"
  and createFunctionDefinition ::
    "nat \<Rightarrow> node \<Rightarrow> string \<Rightarrow> options \<Rightarrow> namespace_table option \<Rightarrow> (string \<times> node) outcome"
where
  "getType 0 property namespaces currentNamespace = OutOfFuel"
| "getType (Suc n) property namespaces currentNamespace =
     (if truthy (f_ref (attrs property)) then
        (if CHR ''.'' \<in> set (str (f_ref (attrs property)))
         then Returned ('' '' @ str (f_ref (attrs property)), property) []
         else
           andThen (findNamespaceFortype (f_ref (attrs property)) namespaces) (\<lambda>namespace.
             if namespace = [] then
               Returned (str (f_ref (attrs property)), property)
                 [LoggerWarn (''ERROR: namespace '' @ [CHR 0x27] @ str (f_ref (attrs property)) @
                    [CHR 0x27] @ '' not found.'')]
             else if truthy currentNamespace \<and> Some (last namespace) = currentNamespace then
               Returned (str (f_ref (attrs property)), property) []
             else
               Returned (last namespace @ ''.'' @ str (f_ref (attrs property)), property) []))
      else if f_type (attrs property) = Some ''integer'' then Returned (''number'', property) []
      else if f_type (attrs property) = Some ''number'' then Returned (''number'', property) []
      else if f_type (attrs property) = Some ''string'' then
        (case f_enum (attrs property) of
           Some (EnumArray items) \<Rightarrow>
             Returned
               (trim (join ''\<newline> | '' (map (\<lambda>item. [CHR 0x27] @ item @ [CHR 0x27]) items)),
                property) []
         | Some EnumOther \<Rightarrow> Returned (''enum'', property) []
         | None \<Rightarrow> Returned (''string'', property) [])
      else if f_type (attrs property) = Some ''array'' then
        (case f_items property of
           None \<Rightarrow> Threw CannotCreateArrayTyping []
         | Some items \<Rightarrow>
             if truthy (f_type (attrs items)) then
               andThen (getType n items None None) (\<lambda>(text, items').
                 Returned (text @ ''[]'', setItems property (Some items')) [])
             else Returned (orEmpty (f_ref (attrs items)) @ ''[]'', property) [])
      else if f_type (attrs property) = Some ''boolean'' then Returned (''boolean'', property) []
      else if f_choices property \<noteq> None then
        andThen (mapM (\<lambda>choice. getType n choice None None)
                   (case f_choices property of None \<Rightarrow> [] | Some choices \<Rightarrow> choices))
          (\<lambda>results.
             Returned (join '' | '' (map fst results),
                       setChoices property (Some (map snd results))) [])
      else if f_type (attrs property) = Some ''function'' then
        andThen
          (createFunctionDefinition n
             (setParameters
                (setAttrs property
                   ((attrs property)\<lparr>f_name := Some [],
                      f_async := Some (case f_async (attrs property) of
                                         None \<Rightarrow> AsyncBool False | Some a \<Rightarrow> a),
                      f_description := Some []\<rparr>))
                (Some (case f_parameters property of None \<Rightarrow> [] | Some ps \<Rightarrow> ps)))
             []
             (defaultOptions\<lparr>omitFunctionKeyword := True, omitFunctionName := True,
                omitDescription := True, inlineFunction := True,
                overrideDelimiter := '' , ''\<rparr>)
             namespaces)
          (\<lambda>(text, schemaPart').
             Returned (''/* or any?  */ '' @ text @ '' /* x7 */ \<newline>'',
                       (case f_parameters property of
                          None \<Rightarrow> property
                        | Some ps \<Rightarrow> setParameters property (f_parameters schemaPart'))) [])
      else if f_type (attrs property) = Some ''any'' then Returned (''any'', property) []
      else if f_type (attrs property) = Some ''object'' then
        (case f_properties property of
           Some entries \<Rightarrow>
             andThen
               (mapM (\<lambda>(name, prop).
                        andThen
                          (generatePropertyTypings n
                             (setAttrs prop
                                ((attrs prop)\<lparr>f_name :=
                                   (case f_name (attrs prop) of
                                      None \<Rightarrow> Some name | Some own \<Rightarrow> Some own)\<rparr>))
                             True)
                          (\<lambda>(text, prop'). Returned (text, (name, setAttrs prop' (attrs prop))) []))
                     entries)
               (\<lambda>results.
                  Returned (''{\<newline>  '' @ concat (map fst results) @ ''\<newline>  }'',
                            setProperties property (Some (map snd results)))
                    (map (\<lambda>func. ConsoleLog (''> func: '' @ [CHR 0x27] @ str (f_name (attrs func))))
                       (case f_functions property of None \<Rightarrow> [] | Some fs \<Rightarrow> fs)))
         | None \<Rightarrow>
             Returned (''/* '' @ [CHR 0x22] @ ''unknown'' @ [CHR 0x22] @ '' undefined */ object'',
                       property) [])
      else Returned (''void /* could not determine correct type */'', property) [])"
| "generatePropertyTypings n property isInterfaceProperty =
     (if f_unsupported (attrs property) then Returned ([], property) []
      else if f_choices property \<noteq> None \<and> \<not> isInterfaceProperty then
        andThen (getType n property None None) (\<lambda>(text, property').
          Returned (generateDescription (f_description (attrs property)) 0 @
                    ''  type '' @ str (f_name (attrs property)) @ '' = '' @ text @ '';\<newline>'',
                    property') [])
      else
        andThen (getType n property None None) (\<lambda>(text, property').
          Returned (generateDescription (f_description (attrs property)) 1 @
                    ''    '' @ str (f_name (attrs property)) @
                    (if f_optional (attrs property) then ''?'' else []) @ '': '' @ text @
                    ''\<newline>'',
                    property') []))"
| "generateFunctionParams n parameters =
     andThen
       (mapM (\<lambda>param.
                andThen
                  (getType n
                     (setParameters param (map_option (map freshParameter) (f_parameters param)))
                     None None)
                  (\<lambda>(text, functionParam').
                     Returned
                       (trim (generateDescription (f_description (attrs param)) 0 @ ''\<newline>'' @
                              str (f_name (attrs param)) @
                              (if f_optional (attrs param) then ''?'' else []) @ '': '' @ text),
                        setParameters functionParam' (f_parameters param)) []))
             parameters)
       (\<lambda>results. Returned (join '', '' (map fst results), map snd results) [])"
| "findReturnType n func namespaces currentNamespace =
     (case f_async (attrs func) of
        Some (AsyncName async) \<Rightarrow>
          (case f_parameters func of
             None \<Rightarrow> Threw TypeError []
           | Some ps \<Rightarrow>
               (let isAsyncReturnType =
                      (\<lambda>param. f_name (attrs param) = Some async \<and>
                                f_type (attrs param) = Some ''function'');
                    asyncReturnType = find isAsyncReturnType ps;
                    ps' = updateFirst isAsyncReturnType shifted ps
                in andThen
                     (case shift (case asyncReturnType of None \<Rightarrow> None
                                  | Some p \<Rightarrow> f_parameters p) of
                        None \<Rightarrow> Returned ''void'' []
                      | Some first \<Rightarrow>
                          andThen (getType n first namespaces (Some currentNamespace))
                            (\<lambda>(text, first'). Returned text []))
                     (\<lambda>unwrappedAsyncReturnType.
                        Returned
                          (''Promise<'' @
                           (if unwrappedAsyncReturnType = [] then ''any''
                            else unwrappedAsyncReturnType) @
                           (case asyncReturnType of
                              None \<Rightarrow> []
                            | Some p \<Rightarrow>
                                if f_name (attrs p) = Some ''callback'' \<and> f_optional (attrs p)
                                then '' | null'' else []) @
                           ''>'',
                           indicesWhere (\<lambda>param. f_name (attrs param) \<noteq> Some async) ps',
                           ps') [])))
      | _ \<Rightarrow>
          (let ps = (case f_parameters func of None \<Rightarrow> [] | Some ps \<Rightarrow> ps);
               functionResultType =
                 (case f_returns func of
                    None \<Rightarrow> ''void''
                  | Some returns \<Rightarrow>
                      if f_type (attrs returns) = Some ''array'' then ''[]''
                      else str (f_type (attrs returns)))
           in Returned
                (if f_async (attrs func) = Some (AsyncBool True) then ''Promise<any>''
                 else functionResultType,
                 indicesWhere (\<lambda>param. f_name (attrs param) \<noteq> Some ''callback'' \<and>
                                        f_name (attrs param) \<noteq> Some ''responseCallback'') ps,
                 ps) []))"
| "createFunctionDefinition n schemaPart currentNamespace opts namespaces =
     andThen (findReturnType n schemaPart namespaces currentNamespace)
       (\<lambda>(returnType, parameters, ps).
          let optional = (\<lambda>i. f_optional (attrs (ps ! i)));
              isNameReserved =
                (f_name (attrs schemaPart) \<in> Some ` set [''import'', ''delete'', ''class'']);
              funcName = (if isNameReserved then ''__'' @ str (f_name (attrs schemaPart))
                          else str (f_name (attrs schemaPart)))
          in
          addLogs
            (if returnType = ''ERR''
             then [LoggerError (''Unknown async type, namespace '' @ currentNamespace @
                      '', function '' @ [CHR 0x27] @ str (f_name (attrs schemaPart)) @
                      [CHR 0x27] @ '': '' @ [CHR 0x27] @ strAsync (f_async (attrs schemaPart)) @
                      [CHR 0x27])]
             else [])
            (andThen
               (foldM (\<lambda>(result, state) params.
                         andThen
                           (generateFunctionParams n
                              (if \<not> allTrailingAreOptional optional parameters
                               then requireAllParams (map (\<lambda>i. state ! i) params)
                               else map (\<lambda>i. state ! i) params))
                           (\<lambda>(text, params').
                              Returned (result @ signatureLine opts funcName returnType text,
                                        writeBack params params' state) []))
                  (if \<not> allTrailingAreOptional optional parameters
                   then overloadCascade optional parameters
                   else [parameters])
                  (if \<not> omitDescription opts
                   then generateDescription (f_description (attrs schemaPart)) 0
                   else [],
                   ps))
               (\<lambda>(result, state).
                  Returned
                    (result @
                     (if isNameReserved
                      then ''\<newline> export { '' @ funcName @ '' as '' @
                           str (f_name (attrs schemaPart)) @ '' }\<newline>\<newline>''
                      else []),
                     setParameters schemaPart
                       (map_option (\<lambda>_. state) (f_parameters schemaPart))) [])))"
  by pat_completeness auto
termination
  by (relation "measure (\<lambda>x. case x of
         Inl (Inl (n, _)) \<Rightarrow> 3 * n
       | Inl (Inr (n, _)) \<Rightarrow> 3 * n + 1
       | Inr (Inl (n, _)) \<Rightarrow> 3 * n + 1
       | Inr (Inr (Inl (n, _))) \<Rightarrow> 3 * n + 1
       | Inr (Inr (Inr (n, _))) \<Rightarrow> 3 * n + 2)")
    simp_all

declare overloadCascade.simps [simp del]
declare getType.simps [simp del] generatePropertyTypings.simps [simp del]
  generateFunctionParams.simps [simp del] findReturnType.simps [simp del]
  createFunctionDefinition.simps [simp del]

section \<open>Declaration emitter\<close>

text \<open>
  The emitter compiles every record of the table once and keeps the text only: it never
  reads a record again after compiling it, and the resolver reads nothing but the
  \<^verbatim>\<open>id\<close> of the declared types, which no call changes. \<open>generateTypeTyping\<close> is the
  body of the \<^verbatim>\<open>forEach\<close> of \<^verbatim>\<open>generateTypeTypings\<close>. \<open>generateTypingsFile\<close> is the
  text handed to \<^verbatim>\<open>writeFile\<close>, and \<open>generateTypings\<close> the run from the parsed
  documents on.
\<close>

definition generateTypeTyping :: "nat \<Rightarrow> namespace_table \<Rightarrow> node \<Rightarrow> string outcome" where
  "generateTypeTyping n namespaces schemaPart =
     andThen
       (if f_type (attrs schemaPart) = Some ''object'' then
          andThen
            (case f_properties schemaPart of
               None \<Rightarrow> Returned [] []
             | Some entries \<Rightarrow>
                 andThen
                   (mapM (\<lambda>(name, prop).
                            generatePropertyTypings n
                              (setAttrs prop
                                 ((attrs prop)\<lparr>f_name :=
                                    (case f_name (attrs prop) of
                                       None \<Rightarrow> Some name | Some own \<Rightarrow> Some own)\<rparr>))
                              True)
                         entries)
                   (\<lambda>results. Returned (concat (map fst results) @ ''\<newline>'') []))
            (\<lambda>properties.
               andThen
                 (case f_functions schemaPart of
                    None \<Rightarrow> Returned [] []
                  | Some functions \<Rightarrow>
                      andThen
                        (mapM (\<lambda>func.
                                 andThen
                                   (createFunctionDefinition n func []
                                      (defaultOptions\<lparr>omitDescription := True,
                                         omitFunctionKeyword := True\<rparr>)
                                      (Some namespaces))
                                   (\<lambda>(text, func').
                                      Returned
                                        (generateDescription (f_description (attrs func)) 0 @
                                         ''\<newline>'' @ text @ ''\<newline>'') []))
                              functions)
                        (\<lambda>results. Returned (concat results @ ''\<newline>'') []))
                 (\<lambda>functions.
                    Returned (''  export interface '' @ str (f_id (attrs schemaPart)) @
                              '' {\<newline>'' @ properties @ functions @ ''  }\<newline>'') []))
        else if f_type (attrs schemaPart) = Some ''string'' then
          Returned (generateDescription (f_description (attrs schemaPart)) 0 @
                    ''  type '' @ str (f_id (attrs schemaPart)) @ '' = string;'') []
        else if f_type (attrs schemaPart) = Some ''url'' then
          Returned (generateDescription (f_description (attrs schemaPart)) 0 @
                    ''  type '' @ str (f_id (attrs schemaPart)) @ '' = string;'') []
        else if truthy (f_id (attrs schemaPart)) then
          andThen (getType n schemaPart None None) (\<lambda>(text, schemaPart').
            Returned (''  type '' @ str (f_id (attrs schemaPart)) @ '' = '' @ text @ '';'') [])
        else Returned [] [])
       (\<lambda>text.
          Returned (generateDescription (f_description (attrs schemaPart)) 0 @ text @
                    ''\<newline>'') [])"

definition generateTypeTypings :: "nat \<Rightarrow> string \<Rightarrow> namespace_table \<Rightarrow> string outcome" where
  "generateTypeTypings n currentNamespace namespaces =
     (case map_of namespaces currentNamespace of
        None \<Rightarrow> Returned [] []
      | Some schema \<Rightarrow>
          if sp_types schema = [] then Returned [] []
          else
            andThen (mapM (generateTypeTyping n namespaces) (sp_types schema))
              (\<lambda>results. Returned (concat results) []))"

definition generateFunctionTypings :: "nat \<Rightarrow> string \<Rightarrow> namespace_table \<Rightarrow> string outcome" where
  "generateFunctionTypings n currentNamespace namespaces =
     (case map_of namespaces currentNamespace of
        None \<Rightarrow> Returned [] []
      | Some schema \<Rightarrow>
          if sp_functions schema = [] then Returned [] []
          else
            andThen
              (mapM (\<lambda>(address, schemaPart).
                       createFunctionDefinition n schemaPart currentNamespace defaultOptions
                         (Some namespaces))
                    (sp_functions schema))
              (\<lambda>results. Returned (concat (map fst results)) []))"

definition generateEventTypings :: "nat \<Rightarrow> string \<Rightarrow> namespace_table \<Rightarrow> string outcome" where
  "generateEventTypings n currentNamespace namespaces =
     (case map_of namespaces currentNamespace of
        None \<Rightarrow> Returned [] []
      | Some schema \<Rightarrow>
          if sp_events schema = [] then Returned [] []
          else
          foldM (\<lambda>result schemaPart.
                   andThen
                     (createFunctionDefinition n schemaPart []
                        (defaultOptions\<lparr>omitFunctionName := True, omitFunctionKeyword := True,
                           inlineFunction := True, overrideDelimiter := '' | '',
                           wrapInBrackets := True\<rparr>)
                        (Some namespaces))
                     (\<lambda>(text, schemaPart').
                        let result' = result @ ''    const '' @ str (f_name (attrs schemaPart)) @
                                      '': EventHandler<'' @ text
                        in Returned (take (length result' - 4) result' @ ''>;\<newline>'') []))
                (sp_events schema) [])"

definition generateNamespacePropertyTypings ::
  "nat \<Rightarrow> string \<Rightarrow> namespace_table \<Rightarrow> string outcome" where
  "generateNamespacePropertyTypings n currentNamespace namespaces =
     (case map_of namespaces currentNamespace of
        None \<Rightarrow> Returned [] []
      | Some schema \<Rightarrow>
          (case sp_properties schema of
             None \<Rightarrow> Returned [] []
           | Some entries \<Rightarrow>
               if entries = [] then Returned [] []
               else
               andThen
                 (mapM (\<lambda>(name, property).
                          andThen
                            (if truthy (f_ref (attrs property)) then
                               andThen (getType n property None None) (\<lambda>(text, property').
                                 Returned (''const '' @ name @ '': '' @ text @ '';\<newline>'') [])
                             else if truthy (f_value (attrs property)) then
                               Returned (''const '' @ name @ '' = '' @
                                         str (f_value (attrs property)) @ '';\<newline>'') []
                             else Returned [] [])
                            (\<lambda>text.
                               Returned
                                 (generateDescription (f_description (attrs property)) 0 @ text)
                                 []))
                       entries)
                 (\<lambda>results. Returned (concat results) [])))"

definition header :: string where
  "header =
     ''interface Window {\<newline>'' @
     ''    browser: typeof browser;\<newline>'' @
     ''    messenger: typeof browser;\<newline>'' @
     ''}\<newline>'' @
     ''\<newline>'' @
     ''import messenger = browser;\<newline>'' @
     ''\<newline>'' @
     ''interface EventHandler<T> {\<newline>'' @
     ''  readonly addListener: (callback: T) => void;\<newline>'' @
     ''  readonly hasListener: (callback: T) => boolean;\<newline>'' @
     ''  readonly removeListener: (callback: T) => void;\<newline>'' @
     ''}\<newline>'' @
     ''\<newline>''"

definition generateTypingsFile :: "nat \<Rightarrow> namespace_table \<Rightarrow> string outcome" where
  "generateTypingsFile n namespaces =
     foldM (\<lambda>data (namespace, schema).
              andThen (generateTypeTypings n namespace namespaces) (\<lambda>types.
              andThen (generateFunctionTypings n namespace namespaces) (\<lambda>functions.
              andThen (generateEventTypings n namespace namespaces) (\<lambda>events.
              andThen (generateNamespacePropertyTypings n namespace namespaces) (\<lambda>properties.
                Returned (data @ generateDescription (sp_description schema) 0 @
                          ''declare namespace browser.'' @ namespace @ '' {\<newline>'' @
                          types @ functions @ events @ properties @ ''}\<newline>\<newline>'') [])))))
       namespaces header"

definition postProcessSchemaFunctions :: "(nat \<times> node) list \<Rightarrow> (nat \<times> node) list" where
  "postProcessSchemaFunctions schemaFunctions =
     filter (\<lambda>(address, item). f_name (attrs item) \<noteq> Some ''delete'') schemaFunctions"

definition postProcessNamespaces :: "namespace_table \<Rightarrow> namespace_table" where
  "postProcessNamespaces namespaces =
     foldl (\<lambda>result (namespace, namespaceSchema).
              mapSet namespace
                (namespaceSchema\<lparr>sp_functions :=
                   postProcessSchemaFunctions (sp_functions namespaceSchema)\<rparr>)
                result)
       [] namespaces"

fun split :: "char \<Rightarrow> string \<Rightarrow> string list" where
  "split sep [] = [[]]"
| "split sep (c # cs) =
     (if c = sep then [] # split sep cs
      else (case split sep cs of [] \<Rightarrow> [[c]] | w # ws \<Rightarrow> (c # w) # ws))"

definition generateTypings :: "nat \<Rightarrow> schema_part list \<Rightarrow> string \<Rightarrow> string outcome" where
  "generateTypings n schemaParts ignoredNamespaces =
     (let namespaces = postProcessNamespaces (mergeSchema schemaParts)
      in generateTypingsFile n
           (if ignoredNamespaces \<noteq> []
            then foldl (\<lambda>namespaces ignoredNamespace. mapDelete ignoredNamespace namespaces)
                   namespaces (split (CHR '','') ignoredNamespaces)
            else namespaces))"

section \<open>Vocabulary of the properties\<close>

text \<open>A namespace declares an identifier when one of its types has it as \<^verbatim>\<open>id\<close>.\<close>

definition declares :: "string \<Rightarrow> schema_part \<Rightarrow> bool" where
  "declares r part = (\<exists>t \<in> set (sp_types part). f_id (attrs t) = Some r)"

text \<open>The second outcome is the first one, unless the first one ran out of fuel.\<close>

definition fuelLe :: "'a outcome \<Rightarrow> 'a outcome \<Rightarrow> bool" where
  "fuelLe m m' = (m = OutOfFuel \<or> m = m')"

section \<open>Example documents\<close>

definition fooFile1 :: node where
  "fooFile1 = Node (noAttrs\<lparr>f_id := Some ''Foo'', f_type := Some ''object''\<rparr>) None None
     (Some [(''a'', leaf (noAttrs\<lparr>f_type := Some ''string''\<rparr>))]) None None None"

definition fooFile2 :: node where
  "fooFile2 = Node (noAttrs\<lparr>f_id := Some ''Foo'', f_type := Some ''object''\<rparr>) None None
     (Some [(''b'', leaf (noAttrs\<lparr>f_type := Some ''number''\<rparr>))]) None None None"

definition sendParameters :: "node list" where
  "sendParameters =
     [leaf (noAttrs\<lparr>f_name := Some ''a'', f_type := Some ''string''\<rparr>),
      leaf (noAttrs\<lparr>f_name := Some ''callback'', f_type := Some ''function''\<rparr>)]"

definition sendFunction :: node where
  "sendFunction = Node (noAttrs\<lparr>f_name := Some ''send'', f_type := Some ''function'',
       f_async := Some (AsyncName ''callback'')\<rparr>) None None None None
     (Some sendParameters) None"

definition mailFile1 :: schema_part where
  "mailFile1 = \<lparr>sp_namespace = ''mail'', sp_description = None, sp_functions = [],
     sp_events = [], sp_types = [fooFile1],
     sp_properties = Some [(''a'', leaf (noAttrs\<lparr>f_value := Some ''1''\<rparr>))]\<rparr>"

definition mailFile2 :: schema_part where
  "mailFile2 = \<lparr>sp_namespace = ''mail'', sp_description = None,
     sp_functions = [(0, sendFunction)],
     sp_events = [], sp_types = [fooFile2],
     sp_properties = Some [(''b'', leaf (noAttrs\<lparr>f_value := Some ''2''\<rparr>))]\<rparr>"

definition anonymousType :: node where
  "anonymousType = leaf (noAttrs\<lparr>f_type := Some ''object''\<rparr>)"

definition anonFile1 :: schema_part where
  "anonFile1 = \<lparr>sp_namespace = ''mail'', sp_description = None, sp_functions = [],
     sp_events = [], sp_types = [anonymousType], sp_properties = None\<rparr>"

definition anonFile2 :: schema_part where
  "anonFile2 = \<lparr>sp_namespace = ''mail'', sp_description = None, sp_functions = [],
     sp_events = [], sp_types = [], sp_properties = None\<rparr>"


text \<open>
  A function type whose callback parameter carries one nested parameter, and the same
  record after \<^verbatim>\<open>shift()\<close> has removed that nested parameter.
\<close>

definition callbackType :: node where
  "callbackType =
     Node (noAttrs\<lparr>f_type := Some ''function'', f_async := Some (AsyncName ''callback'')\<rparr>)
       None None None None
       (Some [Node (noAttrs\<lparr>f_name := Some ''callback'', f_type := Some ''function''\<rparr>)
                None None None None
                (Some [leaf (noAttrs\<lparr>f_type := Some ''integer''\<rparr>)]) None])
       None"

definition callbackTypeAfter :: node where
  "callbackTypeAfter =
     Node (noAttrs\<lparr>f_type := Some ''function'', f_async := Some (AsyncName ''callback'')\<rparr>)
       None None None None
       (Some [Node (noAttrs\<lparr>f_name := Some ''callback'', f_type := Some ''function''\<rparr>)
                None None None None (Some []) None])
       None"

text \<open>\<^verbatim>\<open>f(a?: string, b: string, c?: string)\<close>, synchronous.\<close>

definition overloadParameters :: "node list" where
  "overloadParameters =
     [leaf (noAttrs\<lparr>f_name := Some ''a'', f_type := Some ''string'', f_optional := True\<rparr>),
      leaf (noAttrs\<lparr>f_name := Some ''b'', f_type := Some ''string''\<rparr>),
      leaf (noAttrs\<lparr>f_name := Some ''c'', f_type := Some ''string'', f_optional := True\<rparr>)]"

definition overloadFunction :: node where
  "overloadFunction =
     Node (noAttrs\<lparr>f_name := Some ''f''\<rparr>) None None None None (Some overloadParameters) None"

text \<open>A function whose \<^verbatim>\<open>async\<close> names no parameter: \<^verbatim>\<open>f(a: string)\<close>, \<^verbatim>\<open>async: "cb"\<close>.\<close>

definition unknownAsyncFunction :: node where
  "unknownAsyncFunction =
     Node (noAttrs\<lparr>f_name := Some ''f'', f_async := Some (AsyncName ''cb'')\<rparr>)
       None None None None
       (Some [leaf (noAttrs\<lparr>f_name := Some ''a'', f_type := Some ''string''\<rparr>)])
       None"

text \<open>
  The namespaces \<^verbatim>\<open>compose\<close> and \<^verbatim>\<open>mail\<close>; \<^verbatim>\<open>Foo\<close> is declared in \<^verbatim>\<open>compose\<close> only,
  \<^verbatim>\<open>Tab\<close> in both.
\<close>

definition composeSchema :: schema_part where
  "composeSchema = \<lparr>sp_namespace = ''compose'', sp_description = None, sp_functions = [],
     sp_events = [],
     sp_types = [leaf (noAttrs\<lparr>f_id := Some ''Foo'', f_type := Some ''object''\<rparr>),
                 leaf (noAttrs\<lparr>f_id := Some ''Tab'', f_type := Some ''object''\<rparr>)],
     sp_properties = None\<rparr>"

definition mailSchema :: schema_part where
  "mailSchema = \<lparr>sp_namespace = ''mail'', sp_description = None, sp_functions = [],
     sp_events = [],
     sp_types = [leaf (noAttrs\<lparr>f_id := Some ''Tab'', f_type := Some ''object''\<rparr>)],
     sp_properties = None\<rparr>"

definition composeMailTable :: namespace_table where
  "composeMailTable = [(''compose'', composeSchema), (''mail'', mailSchema)]"

definition arrayOfFoo :: node where
  "arrayOfFoo = Node (noAttrs\<lparr>f_type := Some ''array''\<rparr>)
     (Some (leaf (noAttrs\<lparr>f_ref := Some ''Foo''\<rparr>))) None None None None None"

definition refTab :: node where
  "refTab = leaf (noAttrs\<lparr>f_ref := Some ''Tab''\<rparr>)"

definition refBar :: node where
  "refBar = leaf (noAttrs\<lparr>f_ref := Some ''Bar''\<rparr>)"

text \<open>A namespace with a type \<^verbatim>\<open>{id: "List", type: "array"}\<close> that has no \<^verbatim>\<open>items\<close>.\<close>

definition arrayWithoutItems :: node where
  "arrayWithoutItems = leaf (noAttrs\<lparr>f_id := Some ''List'', f_type := Some ''array''\<rparr>)"

definition listFile :: schema_part where
  "listFile = \<lparr>sp_namespace = ''mail'', sp_description = None,
     sp_functions = [(0, overloadFunction)], sp_events = [],
     sp_types = [arrayWithoutItems], sp_properties = None\<rparr>"

text \<open>
  \<^verbatim>\<open>g(o?: string, p?: array, r: string)\<close>, where the items of \<^verbatim>\<open>p\<close> are a function type
  whose callback parameter carries two nested parameters.
\<close>

definition nestedCallbackItems :: node where
  "nestedCallbackItems =
     Node (noAttrs\<lparr>f_type := Some ''function'', f_async := Some (AsyncName ''cb'')\<rparr>)
       None None None None
       (Some [Node (noAttrs\<lparr>f_name := Some ''cb'', f_type := Some ''function''\<rparr>)
                None None None None
                (Some [leaf (noAttrs\<lparr>f_type := Some ''integer''\<rparr>),
                       leaf (noAttrs\<lparr>f_type := Some ''string''\<rparr>)]) None])
       None"

definition twoOptionalsFunction :: node where
  "twoOptionalsFunction =
     Node (noAttrs\<lparr>f_name := Some ''g''\<rparr>) None None None None
       (Some [leaf (noAttrs\<lparr>f_name := Some ''o'', f_type := Some ''string'', f_optional := True\<rparr>),
              Node (noAttrs\<lparr>f_name := Some ''p'', f_type := Some ''array'', f_optional := True\<rparr>)
                (Some nestedCallbackItems) None None None None None,
              leaf (noAttrs\<lparr>f_name := Some ''r'', f_type := Some ''string''\<rparr>)])
       None"

section \<open>Properties of the namespace merge\<close>

lemma findIndex_None_iff: "findIndex P xs = None \<longleftrightarrow> (\<forall>x \<in> set xs. \<not> P x)"
  by (induction xs) auto

lemma findIndex_lt: "findIndex P xs = Some i \<Longrightarrow> i < length xs"
  by (induction xs arbitrary: i) (auto split: if_splits)

lemma findIndex_append_None:
  "findIndex P xs = None \<Longrightarrow>
   findIndex P (xs @ ys) = map_option (\<lambda>j. length xs + j) (findIndex P ys)"
  by (induction xs; cases "findIndex P ys") (auto split: if_splits)

lemma findIndex_append_Some:
  "findIndex P xs = Some i \<Longrightarrow> findIndex P (xs @ ys) = Some i"
  by (induction xs arbitrary: i) (auto split: if_splits)

lemma findIndex_at_prefix:
  "findIndex P (pre @ y # ys) = Some (length pre) \<longleftrightarrow> P y \<and> (\<forall>x \<in> set pre. \<not> P x)"
proof (cases "findIndex P pre")
  case None
  then show ?thesis
    by (auto simp: findIndex_append_None findIndex_None_iff)
next
  case (Some i)
  then have "i < length pre" by (rule findIndex_lt)
  moreover have "\<exists>x \<in> set pre. P x" using Some findIndex_None_iff[of P pre] by auto
  ultimately show ?thesis using Some by (auto simp: findIndex_append_Some)
qed

lemma dedupe_filter_aux:
  assumes v: "v \<noteq> []"
    and F: "\<And>x i. F x i = (truthy (k x) \<and> findIndex (\<lambda>item. k item = k x) whole = Some i)"
  shows "whole = pre @ ys \<Longrightarrow>
     filter (\<lambda>t. k t = Some v) (map snd (filter (\<lambda>(i, x). F x i) (enumerate (length pre) ys)))
     = (if \<exists>x \<in> set pre. k x = Some v then []
        else case find (\<lambda>t. k t = Some v) ys of None \<Rightarrow> [] | Some t \<Rightarrow> [t])"
proof (induction ys arbitrary: pre)
  case Nil
  then show ?case by simp
next
  case (Cons y ys)
  have whole: "whole = (pre @ [y]) @ ys" using Cons.prems by simp
  have IH: "filter (\<lambda>t. k t = Some v)
       (map snd (filter (\<lambda>(i, x). F x i) (enumerate (Suc (length pre)) ys)))
     = (if k y = Some v \<or> (\<exists>x \<in> set pre. k x = Some v) then []
        else case find (\<lambda>t. k t = Some v) ys of None \<Rightarrow> [] | Some t \<Rightarrow> [t])"
    using Cons.IH[OF whole] by simp
  have Fy: "F y (length pre) = (truthy (k y) \<and> (\<forall>x \<in> set pre. k x \<noteq> k y))"
    unfolding F Cons.prems by (simp add: findIndex_at_prefix)
  show ?case
  proof (cases "k y = Some v")
    case True
    then show ?thesis using IH Fy v by (auto simp: enumerate_simps truthy_def)
  next
    case False
    then show ?thesis using IH by (auto simp: enumerate_simps)
  qed
qed

lemma mergeNamespaceTypes_filter_id:
  assumes "v \<noteq> []"
  shows "filter (\<lambda>t. f_id (attrs t) = Some v) (mergeNamespaceTypes types existing)
     = (case find (\<lambda>t. f_id (attrs t) = Some v) (types @ sp_types existing) of
          None \<Rightarrow> [] | Some t \<Rightarrow> [t])"
proof -
  define F where "F = (\<lambda>schemaPart index. if \<not> truthy (f_id (attrs schemaPart)) then False
              else findIndex (\<lambda>item. f_id (attrs item) = f_id (attrs schemaPart))
                     (types @ sp_types existing) = Some index)"
  have F: "\<And>x i. F x i = (truthy (f_id (attrs x)) \<and>
      findIndex (\<lambda>item. f_id (attrs item) = f_id (attrs x)) (types @ sp_types existing) = Some i)"
    by (simp add: F_def)
  have m: "mergeNamespaceTypes types existing
      = map snd (filter (\<lambda>(i, x). F x i) (enumerate (length ([]::node list)) (types @ sp_types existing)))"
    unfolding mergeNamespaceTypes_def filterWithIndex_def Let_def F_def by simp
  show ?thesis
    unfolding m
    using dedupe_filter_aux[OF assms F, of "[]" "types @ sp_types existing"]
    by simp
qed

lemma mergeNamespaceTypes_anonymous:
  "t \<in> set (mergeNamespaceTypes types existing) \<Longrightarrow> truthy (f_id (attrs t))"
  by (auto simp: mergeNamespaceTypes_def filterWithIndex_def Let_def split: if_splits)

lemma mergeSchema_two:
  "sp_namespace p1 = sp_namespace p2 \<Longrightarrow>
   mergeSchema [p1, p2] =
     [(sp_namespace p2,
       \<lparr>sp_namespace = sp_namespace p2, sp_description = None,
        sp_functions = mergeNamespaceFunctions (sp_functions p2) p1,
        sp_events = mergeNamespaceEvents (sp_events p2) p1,
        sp_types = mergeNamespaceTypes (sp_types p2) p1,
        sp_properties = mergeNameSpaceProperties (sp_properties p2) p1\<rparr>)]"
  by (simp add: mergeSchema_def mergeSchemaPart_def)

lemma find_append: "find P (xs @ ys) = (case find P xs of None \<Rightarrow> find P ys | Some x \<Rightarrow> Some x)"
  by (induction xs) auto

text \<open>
  Claim C4, as amended. When two parts of one namespace are merged and the second part
  declares a type with a non-empty \<^verbatim>\<open>id\<close>, the merged namespace holds exactly one
  record with that \<^verbatim>\<open>id\<close>: the first such record of the second part. The new types
  are concatenated before the existing ones and the first occurrence is kept, so the
  later file wins.
\<close>

theorem merge_types_later_part_wins:
  assumes "sp_namespace p1 = sp_namespace p2"
    and "find (\<lambda>t. f_id (attrs t) = Some i) (sp_types p2) = Some t2"
    and "i \<noteq> []"
  shows "\<exists>m. map_of (mergeSchema [p1, p2]) (sp_namespace p1) = Some m \<and>
             filter (\<lambda>t. f_id (attrs t) = Some i) (sp_types m) = [t2]"
  using assms
  by (simp add: mergeSchema_two mergeNamespaceTypes_filter_id find_append split: option.splits)

text \<open>The hypotheses of the theorem hold for the two files of the round-trip scenario.\<close>

theorem merge_types_later_part_wins_witness:
  "sp_namespace mailFile1 = sp_namespace mailFile2 \<and>
   find (\<lambda>t. f_id (attrs t) = Some ''Foo'') (sp_types mailFile2) = Some fooFile2 \<and>
   (\<exists>m. map_of (mergeSchema [mailFile1, mailFile2]) (sp_namespace mailFile1) = Some m \<and>
             filter (\<lambda>t. f_id (attrs t) = Some ''Foo'') (sp_types m) = [fooFile2])"
proof -
  have a: "sp_namespace mailFile1 = sp_namespace mailFile2"
    by (simp add: mailFile1_def mailFile2_def)
  have b: "find (\<lambda>t. f_id (attrs t) = Some ''Foo'') (sp_types mailFile2) = Some fooFile2"
    by (simp add: mailFile2_def fooFile2_def noAttrs_def)
  show ?thesis using merge_types_later_part_wins[OF a b] a b by simp
qed

text \<open>
  Claim C4 as stated fails: file 1 and file 2 both declare \<^verbatim>\<open>Foo\<close>, and the merged
  namespace keeps the record of file 2, not that of file 1.
\<close>

theorem merge_types_first_file_counterexample:
  "map_option sp_types (map_of (mergeSchema [mailFile1, mailFile2]) ''mail'') = Some [fooFile2]
   \<and> fooFile2 \<noteq> fooFile1"
  by (simp add: mergeSchema_def mergeSchemaPart_def mailFile1_def mailFile2_def
      mergeNamespaceTypes_def filterWithIndex_def enumerate_simps truthy_def Let_def
      fooFile1_def fooFile2_def noAttrs_def leaf_def)

text \<open>
  Claim C5: a type record with no \<^verbatim>\<open>id\<close> is retained by the merge. The source says so
  in its comment (\<^verbatim>\<open>// always keep parts with no name\<close>) but returns \<^verbatim>\<open>0\<close>, which
  \<^verbatim>\<open>filter\<close> reads as "drop". Merging a part whose only type is anonymous with a
  second part of the same namespace leaves no type at all.
\<close>

theorem merge_drops_anonymous_type:
  "map_option sp_types (map_of (mergeSchema [anonFile1, anonFile2]) ''mail'') = Some []"
  by (simp add: mergeSchema_def mergeSchemaPart_def anonFile1_def anonFile2_def
      mergeNamespaceTypes_def filterWithIndex_def enumerate_simps truthy_def Let_def
      anonymousType_def noAttrs_def leaf_def)

text \<open>
  Claim C6, as amended. When two parts of one namespace are merged, the merged record
  carries the \<^verbatim>\<open>properties\<close> of the second part, whatever the first part had.
\<close>

theorem merge_properties_second_kept:
  "sp_namespace p1 = sp_namespace p2 \<Longrightarrow>
   map_option sp_properties (map_of (mergeSchema [p1, p2]) (sp_namespace p1))
     = Some (sp_properties p2)"
  by (simp add: mergeSchema_two mergeNameSpaceProperties_def)

text \<open>The two files of the scenario share the namespace.\<close>

theorem merge_properties_second_kept_witness:
  "sp_namespace mailFile1 = sp_namespace mailFile2 \<and>
   map_option sp_properties (map_of (mergeSchema [mailFile1, mailFile2]) (sp_namespace mailFile1))
     = Some (sp_properties mailFile2)"
proof -
  have a: "sp_namespace mailFile1 = sp_namespace mailFile2"
    by (simp add: mailFile1_def mailFile2_def)
  show ?thesis using merge_properties_second_kept[OF a] a by simp
qed

text \<open>
  Claim C6 as stated fails: the merged record has the second document's map, which
  differs from the first document's.
\<close>

theorem merge_properties_first_kept_counterexample:
  "map_option sp_properties (map_of (mergeSchema [mailFile1, mailFile2]) ''mail'')
     = Some (sp_properties mailFile2) \<and> sp_properties mailFile2 \<noteq> sp_properties mailFile1"
  by (simp add: mergeSchema_def mergeSchemaPart_def mailFile1_def mailFile2_def
      mergeNameSpaceProperties_def noAttrs_def leaf_def)

section \<open>The fuel bound\<close>

text \<open>
  More fuel never changes an outcome other than \<open>OutOfFuel\<close>: what a call returns or
  throws with some bound on the nesting depth, it returns or throws with every larger
  bound. The outcomes computed below with a fixed bound are therefore the outcomes of the
  program.
\<close>

lemma fuelLe_refl [simp, intro!]: "fuelLe m m"
  by (simp add: fuelLe_def)

lemma fuelLe_OutOfFuel [simp, intro!]: "fuelLe OutOfFuel m"
  by (simp add: fuelLe_def)

lemma addLogs_mono: "fuelLe m m' \<Longrightarrow> fuelLe (addLogs l m) (addLogs l m')"
  by (auto simp: fuelLe_def)

lemma andThen_mono:
  "fuelLe (andThen m f) (andThen m' f')" if "fuelLe m m'" "\<And>x. fuelLe (f x) (f' x)"
proof (cases m)
  case OutOfFuel
  then show ?thesis by simp
next
  case (Threw e l)
  then have "m' = Threw e l" using that(1) by (simp add: fuelLe_def)
  then show ?thesis using Threw by simp
next
  case (Returned x l)
  then have "m' = Returned x l" using that(1) by (simp add: fuelLe_def)
  then show ?thesis using Returned addLogs_mono[OF that(2)[of x], of l] by simp
qed

lemma mapM_mono:
  "(\<And>x. fuelLe (f x) (f' x)) \<Longrightarrow> fuelLe (mapM f xs) (mapM f' xs)"
  by (induction xs) (auto intro!: andThen_mono)

lemma foldM_mono:
  "(\<And>s x. fuelLe (f s x) (f' s x)) \<Longrightarrow> fuelLe (foldM f xs s) (foldM f' xs s)"
  by (induction xs arbitrary: s) (auto intro!: andThen_mono)

lemma fuelLe_if:
  "(c \<Longrightarrow> fuelLe a a') \<Longrightarrow> (\<not> c \<Longrightarrow> fuelLe b b') \<Longrightarrow>
   fuelLe (if c then a else b) (if c then a' else b')"
  by simp

lemma fuelLe_case_option:
  "fuelLe a a' \<Longrightarrow> (\<And>y. fuelLe (f y) (f' y)) \<Longrightarrow>
   fuelLe (case x of None \<Rightarrow> a | Some y \<Rightarrow> f y) (case x of None \<Rightarrow> a' | Some y \<Rightarrow> f' y)"
  by (cases x) simp_all

lemma fuelLe_case_prod:
  "(\<And>a b. fuelLe (f a b) (f' a b)) \<Longrightarrow>
   fuelLe (case p of (a, b) \<Rightarrow> f a b) (case p of (a, b) \<Rightarrow> f' a b)"
  by (cases p) simp

lemma generatePropertyTypings_mono:
  assumes G: "\<And>p ns c. fuelLe (getType n p ns c) (getType m p ns c)"
  shows "fuelLe (generatePropertyTypings n p b) (generatePropertyTypings m p b)"
  unfolding generatePropertyTypings.simps
  by (auto intro!: andThen_mono G)

lemma generateFunctionParams_mono:
  assumes G: "\<And>p ns c. fuelLe (getType n p ns c) (getType m p ns c)"
  shows "fuelLe (generateFunctionParams n ps) (generateFunctionParams m ps)"
  unfolding generateFunctionParams.simps
  by (intro andThen_mono mapM_mono G fuelLe_refl)

lemma findReturnType_mono:
  assumes G: "\<And>p ns c. fuelLe (getType n p ns c) (getType m p ns c)"
  shows "fuelLe (findReturnType n f ns c) (findReturnType m f ns c)"
  unfolding findReturnType.simps Let_def
  by (auto intro!: andThen_mono G split: option.splits async_flag.splits)

lemma createFunctionDefinition_mono:
  assumes G: "\<And>p ns c. fuelLe (getType n p ns c) (getType m p ns c)"
  shows "fuelLe (createFunctionDefinition n f c opts ns) (createFunctionDefinition m f c opts ns)"
  unfolding createFunctionDefinition.simps Let_def
  by (intro andThen_mono addLogs_mono foldM_mono findReturnType_mono generateFunctionParams_mono G
        fuelLe_refl | simp only: split_beta)+


lemma getType_mono_step:
  assumes G: "\<And>p ns c. fuelLe (getType n p ns c) (getType m p ns c)"
  shows "fuelLe (getType (Suc n) p ns c) (getType (Suc m) p ns c)"
  unfolding getType.simps
  by (auto intro!: andThen_mono mapM_mono generatePropertyTypings_mono
        createFunctionDefinition_mono G split: option.splits enum_value.splits)

lemma getType_mono: "fuelLe (getType n p ns c) (getType (Suc n) p ns c)"
proof (induction n arbitrary: p ns c)
  case 0
  show ?case by (simp add: getType.simps)
next
  case (Suc n)
  show ?case by (rule getType_mono_step) (rule Suc.IH)
qed

lemma getType_fuel_add:
  "getType n p ns c \<noteq> OutOfFuel \<Longrightarrow> getType (n + k) p ns c = getType n p ns c"
proof (induction k)
  case 0
  show ?case by simp
next
  case (Suc k)
  then have "getType (n + k) p ns c \<noteq> OutOfFuel" by simp
  then show ?case using getType_mono[of "n + k" p ns c] Suc by (simp add: fuelLe_def)
qed

lemma createFunctionDefinition_fuel_add:
  "createFunctionDefinition n f cn opts ns \<noteq> OutOfFuel \<Longrightarrow>
   createFunctionDefinition (n + k) f cn opts ns = createFunctionDefinition n f cn opts ns"
proof (induction k)
  case 0
  show ?case by simp
next
  case (Suc k)
  then have "createFunctionDefinition (n + k) f cn opts ns \<noteq> OutOfFuel" by simp
  then show ?case
    using createFunctionDefinition_mono[OF getType_mono, of "n + k" f cn opts ns] Suc
    by (simp add: fuelLe_def)
qed

lemma generateTypeTyping_mono:
  "fuelLe (generateTypeTyping n table t) (generateTypeTyping (Suc n) table t)"
  unfolding generateTypeTyping_def
  by (intro andThen_mono mapM_mono fuelLe_if fuelLe_case_option fuelLe_case_prod
      generatePropertyTypings_mono createFunctionDefinition_mono getType_mono fuelLe_refl)

lemma generateTypingsFile_mono:
  "fuelLe (generateTypingsFile n table) (generateTypingsFile (Suc n) table)"
  unfolding generateTypingsFile_def generateTypeTypings_def generateFunctionTypings_def
    generateEventTypings_def generateNamespacePropertyTypings_def Let_def
  by (intro foldM_mono andThen_mono mapM_mono fuelLe_if fuelLe_case_option fuelLe_case_prod
      generateTypeTyping_mono createFunctionDefinition_mono getType_mono fuelLe_refl)

lemma generateTypingsFile_fuel_add:
  "generateTypingsFile n table \<noteq> OutOfFuel \<Longrightarrow>
   generateTypingsFile (n + k) table = generateTypingsFile n table"
proof (induction k)
  case 0
  show ?case by simp
next
  case (Suc k)
  then have "generateTypingsFile (n + k) table \<noteq> OutOfFuel" by simp
  then show ?case
    using generateTypingsFile_mono[of "n + k" table] Suc by (simp add: fuelLe_def)
qed

lemma generateTypings_fuel_add:
  "generateTypings n parts ignored \<noteq> OutOfFuel \<Longrightarrow>
   generateTypings (n + k) parts ignored = generateTypings n parts ignored"
  unfolding generateTypings_def Let_def by (rule generateTypingsFile_fuel_add)
section \<open>Properties of the type expression compiler and the signature synthesizer\<close>

lemma andThen_Returned:
  "andThen m f = Returned y l \<longleftrightarrow>
     (\<exists>x l1 l2. m = Returned x l1 \<and> f x = Returned y l2 \<and> l = l1 @ l2)"
  by (cases m; cases "f (case m of Returned x _ \<Rightarrow> x)") auto

lemma find_None_conv: "find P xs = None \<longleftrightarrow> (\<forall>x \<in> set xs. \<not> P x)"
  by (induction xs) auto

text \<open>
  A loop returns only if every round of it returned.
\<close>

lemma mapM_Returned_each:
  "mapM f xs = Returned ys l \<Longrightarrow> x \<in> set xs \<Longrightarrow> \<exists>y l'. f x = Returned y l'"
proof (induction xs arbitrary: ys l)
  case Nil
  then show ?case by simp
next
  case (Cons a xs)
  from Cons.prems(1) obtain y l1 zs l2 where
    a: "f a = Returned y l1" and rest: "mapM f xs = Returned zs l2"
    by (auto simp: andThen_Returned)
  show ?case
  proof (cases "x = a")
    case True
    then show ?thesis using a by blast
  next
    case False
    then have "x \<in> set xs" using Cons.prems(2) by simp
    then show ?thesis using Cons.IH[OF rest] by blast
  qed
qed

lemma foldM_Returned_each:
  "foldM f xs s = Returned r l \<Longrightarrow> x \<in> set xs \<Longrightarrow> \<exists>s0 s1 l'. f s0 x = Returned s1 l'"
proof (induction xs arbitrary: s l)
  case Nil
  then show ?case by simp
next
  case (Cons a xs)
  from Cons.prems(1) obtain s' l1 l2 where
    a: "f s a = Returned s' l1" and rest: "foldM f xs s' = Returned r l2"
    by (auto simp: andThen_Returned)
  show ?case
  proof (cases "x = a")
    case True
    then show ?thesis using a by blast
  next
    case False
    then have "x \<in> set xs" using Cons.prems(2) by simp
    then show ?thesis using Cons.IH[OF rest] by blast
  qed
qed







text \<open>The signature of \<^verbatim>\<open>send\<close> as the synthesizer prints it.\<close>

lemma send_signature:
  "createFunctionDefinition 1 sendFunction ''mail'' defaultOptions None
     = Returned (''  function send(a: string): Promise<void>;\<newline>'', sendFunction) []"
  by code_simp




text \<open>
  Claim C3: a function whose \<^verbatim>\<open>async\<close> string matches no function-typed parameter
  gets a diagnostic, an untyped asynchronous wrapper and an empty parameter list. The
  source has the diagnostic (\<^verbatim>\<open>logger.error\<close> on the return type \<^verbatim>\<open>"ERR"\<close>) and the
  empty list, but behind an unconditional \<^verbatim>\<open>return\<close>. For \<^verbatim>\<open>f(a: string)\<close> with
  \<^verbatim>\<open>async: "cb"\<close> the code prints nothing, keeps the parameter \<^verbatim>\<open>a\<close> and returns
  \<^verbatim>\<open>Promise<void>\<close>.
\<close>

theorem unknown_async_no_diagnostic:
  "createFunctionDefinition 1 unknownAsyncFunction ''mail'' defaultOptions None
     = Returned (''  function f(a: string): Promise<void>;\<newline>'', unknownAsyncFunction) []"
  by code_simp

text \<open>
  Claim C7, as amended. For an array-typed node (with no \<^verbatim>\<open>$ref\<close> of its own) whose
  \<^verbatim>\<open>items\<close> has no \<^verbatim>\<open>type\<close> and carries a \<^verbatim>\<open>$ref\<close>, the compiled expression is
  that reference name as it is written, followed by \<^verbatim>\<open>[]\<close>. Neither the namespace
  table nor the current namespace is consulted, and the node is left unchanged.
\<close>

theorem array_of_reference_unqualified:
  assumes "\<not> truthy (f_ref (attrs property))"
    and "f_type (attrs property) = Some ''array''"
    and "f_items property = Some items"
    and "\<not> truthy (f_type (attrs items))"
    and "f_ref (attrs items) = Some r"
  shows "getType (Suc n) property namespaces currentNamespace
           = Returned (r @ ''[]'', property) []"
  using assms by (simp add: getType.simps orEmpty_def)

text \<open>
  The scenario of the specification meets the hypotheses: \<^verbatim>\<open>{type: "array", items:
  {$ref: "Foo"}}\<close> compiled in \<^verbatim>\<open>mail\<close>, with \<^verbatim>\<open>Foo\<close> declared in \<^verbatim>\<open>compose\<close>.
\<close>

theorem array_of_reference_unqualified_witness:
  "\<not> truthy (f_ref (attrs arrayOfFoo)) \<and> f_type (attrs arrayOfFoo) = Some ''array'' \<and>
   f_items arrayOfFoo = Some (leaf (noAttrs\<lparr>f_ref := Some ''Foo''\<rparr>)) \<and>
   \<not> truthy (f_type (attrs (leaf (noAttrs\<lparr>f_ref := Some ''Foo''\<rparr>)))) \<and>
   f_ref (attrs (leaf (noAttrs\<lparr>f_ref := Some ''Foo''\<rparr>))) = Some ''Foo'' \<and>
   getType (Suc 0) arrayOfFoo (Some composeMailTable) (Some ''mail'')
     = Returned (''Foo'' @ ''[]'', arrayOfFoo) []"
proof -
  have a: "\<not> truthy (f_ref (attrs arrayOfFoo))"
    and b: "f_type (attrs arrayOfFoo) = Some ''array''"
    and c: "f_items arrayOfFoo = Some (leaf (noAttrs\<lparr>f_ref := Some ''Foo''\<rparr>))"
    and d: "\<not> truthy (f_type (attrs (leaf (noAttrs\<lparr>f_ref := Some ''Foo''\<rparr>))))"
    and e: "f_ref (attrs (leaf (noAttrs\<lparr>f_ref := Some ''Foo''\<rparr>))) = Some ''Foo''"
    by (simp_all add: arrayOfFoo_def noAttrs_def leaf_def truthy_def)
  show ?thesis
    using array_of_reference_unqualified[OF a b c d e, of 0 "Some composeMailTable" "Some ''mail''"]
      a b c d e by simp
qed

text \<open>
  Claim C7 as stated fails: in that scenario the expression is \<^verbatim>\<open>Foo[]\<close>, not
  \<^verbatim>\<open>compose.Foo[]\<close>.
\<close>

theorem array_of_reference_qualified_counterexample:
  "getType 1 arrayOfFoo (Some composeMailTable) (Some ''mail'')
     = Returned (''Foo[]'', arrayOfFoo) [] \<and>
   getType 1 arrayOfFoo (Some composeMailTable) (Some ''mail'')
     \<noteq> Returned (''compose.Foo[]'', arrayOfFoo) []"
  by (simp add: getType.simps arrayOfFoo_def noAttrs_def leaf_def truthy_def orEmpty_def)

lemma getType_array_without_items:
  assumes "\<not> truthy (f_ref (attrs property))"
    and "f_type (attrs property) = Some ''array''"
    and "f_items property = None"
  shows "getType n property namespaces currentNamespace \<noteq> Returned y l"
proof (cases n)
  case 0
  then show ?thesis by (simp add: getType.simps)
next
  case (Suc m)
  then show ?thesis using assms by (simp add: getType.simps)
qed

lemma generateTypeTyping_array_without_items:
  assumes "\<not> truthy (f_ref (attrs property))"
    and "f_type (attrs property) = Some ''array''"
    and "f_items property = None"
    and "truthy (f_id (attrs property))"
  shows "generateTypeTyping n table property \<noteq> Returned text logs"
  using assms getType_array_without_items[OF assms(1-3), of n None None]
  unfolding generateTypeTyping_def
  by (auto simp: andThen_Returned)

lemma generateTypingsFile_array_without_items:
  assumes "\<not> truthy (f_ref (attrs property))"
    and "f_type (attrs property) = Some ''array''"
    and "f_items property = None"
    and "truthy (f_id (attrs property))"
    and "map_of table namespace = Some schema"
    and "property \<in> set (sp_types schema)"
  shows "generateTypingsFile n table \<noteq> Returned text logs"
proof
  assume r: "generateTypingsFile n table = Returned text logs"
  have mem: "(namespace, schema) \<in> set table" using assms(5) by (rule map_of_SomeD)
  have ne: "sp_types schema \<noteq> []" using assms(6) by auto
  from foldM_Returned_each[OF r[unfolded generateTypingsFile_def] mem]
  obtain types l1 where "generateTypeTypings n namespace table = Returned types l1"
    by (auto simp: andThen_Returned)
  then obtain results l2 where
    "mapM (generateTypeTyping n table) (sp_types schema) = Returned results l2"
    using assms(5) ne by (auto simp: generateTypeTypings_def andThen_Returned)
  from mapM_Returned_each[OF this assms(6)]
  show False using generateTypeTyping_array_without_items[OF assms(1-4)] by blast
qed

text \<open>
  Claim C8, as amended. Compiling an array-typed node (with no \<^verbatim>\<open>$ref\<close>) that lacks
  \<^verbatim>\<open>items\<close> throws the error "Cannot create array typing": no marker is emitted for
  the node. No caller catches the error: when a namespace of the table declares such a
  node as a named type, the emitter produces no text, however the rest of the table
  looks.
\<close>

theorem array_without_items_throws:
  assumes "\<not> truthy (f_ref (attrs property))"
    and "f_type (attrs property) = Some ''array''"
    and "f_items property = None"
  shows "getType (Suc n) property namespaces currentNamespace
           = Threw CannotCreateArrayTyping [] \<and>
         (truthy (f_id (attrs property)) \<and> map_of table namespace = Some schema \<and>
          property \<in> set (sp_types schema) \<longrightarrow>
          (\<forall>m text logs. generateTypingsFile m table \<noteq> Returned text logs))"
proof (intro conjI impI allI)
  show "getType (Suc n) property namespaces currentNamespace = Threw CannotCreateArrayTyping []"
    using assms by (simp add: getType.simps)
next
  fix m out logs
  assume "truthy (f_id (attrs property)) \<and> map_of table namespace = Some schema \<and>
          property \<in> set (sp_types schema)"
  then show "generateTypingsFile m table \<noteq> Returned out logs"
    using generateTypingsFile_array_without_items[OF assms] by blast
qed

text \<open>
  The node \<^verbatim>\<open>{id: "List", type: "array"}\<close> meets the hypotheses, alone and as a type
  of the namespace \<^verbatim>\<open>mail\<close>.
\<close>

theorem array_without_items_throws_witness:
  "\<not> truthy (f_ref (attrs arrayWithoutItems)) \<and>
   f_type (attrs arrayWithoutItems) = Some ''array'' \<and>
   f_items arrayWithoutItems = None \<and>
   truthy (f_id (attrs arrayWithoutItems)) \<and>
   map_of [(''mail'', listFile)] ''mail'' = Some listFile \<and>
   arrayWithoutItems \<in> set (sp_types listFile) \<and>
   getType (Suc 0) arrayWithoutItems None None = Threw CannotCreateArrayTyping [] \<and>
   (\<forall>m text logs. generateTypingsFile m [(''mail'', listFile)] \<noteq> Returned text logs)"
proof -
  have a: "\<not> truthy (f_ref (attrs arrayWithoutItems))"
    and b: "f_type (attrs arrayWithoutItems) = Some ''array''"
    and c: "f_items arrayWithoutItems = None"
    and d: "truthy (f_id (attrs arrayWithoutItems))"
    by (simp_all add: arrayWithoutItems_def noAttrs_def leaf_def truthy_def)
  have e: "map_of [(''mail'', listFile)] ''mail'' = Some listFile" by simp
  have f: "arrayWithoutItems \<in> set (sp_types listFile)" by (simp add: listFile_def)
  note t = array_without_items_throws[OF a b c,
      of 0 None None "[(''mail'', listFile)]" "''mail''" listFile]
  have g: "getType (Suc 0) arrayWithoutItems None None = Threw CannotCreateArrayTyping []"
    by (rule t[THEN conjunct1])
  have h: "\<forall>m text logs. generateTypingsFile m [(''mail'', listFile)] \<noteq> Returned text logs"
    by (rule t[THEN conjunct2, THEN mp]) (intro conjI d e f)
  show ?thesis by (intro conjI a b c d e f g h)
qed

text \<open>
  Claim C8 as stated fails: a run over one document whose namespace declares that node
  and one function ends with the error, and no declaration is produced.
\<close>

theorem array_without_items_aborts_run_counterexample:
  "generateTypings 5 [listFile] [] = Threw CannotCreateArrayTyping []"
  by code_simp

text \<open>
  The \<^verbatim>\<open>$ref\<close> branch of \<^verbatim>\<open>getType\<close> for a reference without a dot.
\<close>

lemma getType_unqualified_ref:
  assumes "f_ref (attrs property) = Some r" "r \<noteq> []" "CHR ''.'' \<notin> set r"
  shows "getType (Suc n) property namespaces currentNamespace =
     andThen (findNamespaceFortype (Some r) namespaces) (\<lambda>namespace.
       if namespace = [] then
         Returned (r, property)
           [LoggerWarn (''ERROR: namespace '' @ [CHR 0x27] @ r @ [CHR 0x27] @ '' not found.'')]
       else if truthy currentNamespace \<and> Some (last namespace) = currentNamespace then
         Returned (r, property) []
       else Returned (last namespace @ ''.'' @ r, property) [])"
proof -
  have t: "truthy (f_ref (attrs property))" and s: "str (f_ref (attrs property)) = r"
    using assms by (simp_all add: truthy_def str_def)
  show ?thesis
    unfolding getType.simps(2)[of n property namespaces currentNamespace] s
    using t assms(1,3) by (simp only: if_True if_False)
qed

text \<open>
  Claim C9. Let the node carry an unqualified, non-empty \<^verbatim>\<open>$ref\<close>. If no namespace of
  the table declares the identifier, \<^verbatim>\<open>getType\<close> returns the bare identifier and logs
  the warning; it does not throw. If some namespaces declare it, the one that comes last
  in the table decides: the identifier is prefixed with that namespace, or left bare
  when that namespace is the (non-empty) current one.
\<close>

theorem unresolved_reference_bare_and_last_namespace_wins:
  assumes "f_ref (attrs property) = Some r" and "r \<noteq> []" and "CHR ''.'' \<notin> set r"
  shows "((\<forall>(namespace, part) \<in> set table. \<not> declares r part) \<longrightarrow>
            getType (Suc n) property (Some table) currentNamespace
              = Returned (r, property)
                  [LoggerWarn (''ERROR: namespace '' @ [CHR 0x27] @ r @ [CHR 0x27] @
                               '' not found.'')]) \<and>
         (\<forall>before namespace part after.
            table = before @ (namespace, part) # after \<and> declares r part \<and>
            (\<forall>(namespace', part') \<in> set after. \<not> declares r part') \<longrightarrow>
            (\<exists>logs. getType (Suc n) property (Some table) currentNamespace
               = Returned (if truthy currentNamespace \<and> currentNamespace = Some namespace
                           then r else namespace @ ''.'' @ r, property) logs))"
proof (intro conjI allI impI)
  let ?P = "\<lambda>(namespace, part). find (\<lambda>item. f_id (attrs item) = Some r) (sp_types part) \<noteq> None"
  have P: "\<And>namespace part. ?P (namespace, part) = declares r part"
    by (auto simp: find_None_conv declares_def)
  {
    assume none: "\<forall>(namespace, part) \<in> set table. \<not> declares r part"
    have e: "filter ?P table = []"
      using none by (auto simp: filter_empty_conv find_None_conv declares_def)
    show "getType (Suc n) property (Some table) currentNamespace
              = Returned (r, property)
                  [LoggerWarn (''ERROR: namespace '' @ [CHR 0x27] @ r @ [CHR 0x27] @
                               '' not found.'')]"
      unfolding getType_unqualified_ref[OF assms] findNamespaceFortype_def option.case Let_def e
      by simp
  }
  {
    fix before namespace part after
    assume a: "table = before @ (namespace, part) # after \<and> declares r part \<and>
            (\<forall>(namespace', part') \<in> set after. \<not> declares r part')"
    have after: "filter ?P after = []"
      using a by (auto simp: filter_empty_conv find_None_conv declares_def)
    have here: "?P (namespace, part)"
      using a by (auto simp: find_None_conv declares_def)
    have tab: "table = before @ (namespace, part) # after" using a by (rule conjunct1)
    have f: "filter ?P table = filter ?P before @ [(namespace, part)]"
      unfolding tab filter_append filter.simps after using here by simp
    show "\<exists>logs. getType (Suc n) property (Some table) currentNamespace
               = Returned (if truthy currentNamespace \<and> currentNamespace = Some namespace
                           then r else namespace @ ''.'' @ r, property) logs"
    proof -
      have found: "findNamespaceFortype (Some r) (Some table)
          = Returned (map fst (filter ?P before) @ [namespace])
              (map (\<lambda>(namespace, part).
                      ConsoleLog (''FOUND! :: '' @ [CHR 0x27] @ namespace @ ''.'' @ str (Some r)))
                   (filter ?P before @ [(namespace, part)]))"
        unfolding findNamespaceFortype_def option.case Let_def f by simp
      show ?thesis
        unfolding getType_unqualified_ref[OF assms] found
        by (cases "currentNamespace = Some namespace") auto
    qed
  }
qed

text \<open>
  \<^verbatim>\<open>Bar\<close> is declared nowhere; \<^verbatim>\<open>Tab\<close> is declared in \<^verbatim>\<open>compose\<close> and in \<^verbatim>\<open>mail\<close>,
  and compiled in \<^verbatim>\<open>compose\<close> it is qualified with \<^verbatim>\<open>mail\<close>, the last namespace of
  the table.
\<close>

theorem unresolved_reference_bare_and_last_namespace_wins_witness:
  "getType (Suc 0) refBar (Some composeMailTable) (Some ''mail'')
     = Returned (''Bar'', refBar)
         [LoggerWarn (''ERROR: namespace '' @ [CHR 0x27] @ ''Bar'' @ [CHR 0x27] @ '' not found.'')] \<and>
   (\<exists>logs. getType (Suc 0) refTab (Some composeMailTable) (Some ''compose'')
      = Returned (''mail.Tab'', refTab) logs)"
proof -
  have bar: "f_ref (attrs refBar) = Some ''Bar''" "''Bar'' \<noteq> []" "CHR ''.'' \<notin> set ''Bar''"
    by (simp_all add: refBar_def leaf_def noAttrs_def)
  have tab: "f_ref (attrs refTab) = Some ''Tab''" "''Tab'' \<noteq> []" "CHR ''.'' \<notin> set ''Tab''"
    by (simp_all add: refTab_def leaf_def noAttrs_def)
  have none: "\<forall>(namespace, part) \<in> set composeMailTable. \<not> declares ''Bar'' part"
    by (simp add: composeMailTable_def composeSchema_def mailSchema_def declares_def
        leaf_def noAttrs_def)
  have split: "composeMailTable = [(''compose'', composeSchema)] @ (''mail'', mailSchema) # [] \<and>
      declares ''Tab'' mailSchema \<and> (\<forall>(namespace', part') \<in> set []. \<not> declares ''Tab'' part')"
    by (simp add: composeMailTable_def mailSchema_def declares_def leaf_def noAttrs_def)
  have 1: "getType (Suc 0) refBar (Some composeMailTable) (Some ''mail'')
     = Returned (''Bar'', refBar)
         [LoggerWarn (''ERROR: namespace '' @ [CHR 0x27] @ ''Bar'' @ [CHR 0x27] @ '' not found.'')]"
    by (rule unresolved_reference_bare_and_last_namespace_wins
      [OF bar, of composeMailTable 0 "Some ''mail''", THEN conjunct1, THEN mp, OF none])
  have 2: "\<exists>logs. getType (Suc 0) refTab (Some composeMailTable) (Some ''compose'')
      = Returned (if truthy (Some ''compose'') \<and> Some ''compose'' = Some ''mail''
                  then ''Tab'' else ''mail'' @ ''.'' @ ''Tab'', refTab) logs"
    by (rule unresolved_reference_bare_and_last_namespace_wins
      [OF tab, of composeMailTable 0 "Some ''compose''", THEN conjunct2, rule_format, OF split])
  have 3: "(if truthy (Some ''compose'') \<and> Some ''compose'' = Some ''mail''
                  then ''Tab'' else ''mail'' @ ''.'' @ ''Tab'') = ''mail.Tab''"
    by simp
  show ?thesis using 1 2 unfolding 3 by (rule conjI)
qed

text \<open>
  Claim C10: compiling a node twice gives the same text. For a function type whose
  callback parameter carries the nested parameter \<^verbatim>\<open>{type: "integer"}\<close>, the first
  compilation gives \<^verbatim>\<open>Promise<number>\<close> and removes the nested parameter from the
  node; the second compilation, of the node as the first one left it, gives
  \<^verbatim>\<open>Promise<void>\<close>.
\<close>

theorem compile_twice_differs:
  "getType 2 callbackType None None
     = Returned (''/* or any?  */   () => Promise<number> , \<newline> /* x7 */ \<newline>'',
                 callbackTypeAfter) [] \<and>
   getType 2 callbackTypeAfter None None
     = Returned (''/* or any?  */   () => Promise<void> , \<newline> /* x7 */ \<newline>'',
                 callbackTypeAfter) [] \<and>
   callbackTypeAfter \<noteq> callbackType"
  by code_simp

text \<open>
  The same shows within one call. The cascade renders the parameter \<^verbatim>\<open>p\<close> of
  \<^verbatim>\<open>g(o?, p?, r)\<close> in two signatures; the first rendering consumes the first nested
  parameter of the callback inside \<^verbatim>\<open>p\<close>, so the two signatures give \<^verbatim>\<open>p\<close> two
  different types.
\<close>

lemma cascade_renders_parameter_differently:
  "map_option fst
     (case createFunctionDefinition 3 twoOptionalsFunction ''mail'' defaultOptions None of
        Returned r logs \<Rightarrow> Some r | _ \<Rightarrow> None)
   = Some (''  function g(o: string, p: /* or any?  */   () => Promise<number> , \<newline>'' @
           '' /* x7 */ \<newline>[], r: string): void;\<newline>'' @
           ''  function g(p: /* or any?  */   () => Promise<string> , \<newline>'' @
           '' /* x7 */ \<newline>[], r: string): void;\<newline>'' @
           ''  function g(r: string): void;\<newline>'')"
  by code_simp

end
